theory Spec2Isabelle
  imports Complex_Main
begin

section \<open>The engine session of Chess\_Analyzer\_GUI.py\<close>

text \<open>
  The application keeps one reference \<open>self.engine\<close> to a UCI engine protocol object, a
  request queue filled by the user interface and drained by one worker thread
  (\<open>_async_engine_handler\<close>), and a result queue filled by the worker and polled by the
  user interface (\<open>_check_result_queue\<close>). This theory embeds those functions, together
  with \<open>_resolve_engine_path\<close>, \<open>_connect_to_stockfish\<close>, \<open>_start_analysis\<close>,
  \<open>_update_gui_with_analysis\<close> and \<open>_on_closing\<close>, as functions on a record of the
  application's state. Drawing, theming and click handling are left out.
\<close>

subsection \<open>Values of the python-chess library\<close>

text \<open>
  \<open>chess.WHITE\<close> is \<open>True\<close> and \<open>chess.BLACK\<close> is \<open>False\<close>. A \<open>chess.Board\<close> object
  is an address in a store of board values; of a board value only the side to move is
  read by the source, the rest of the position is kept as its FEN text.
\<close>

type_synonym color = bool
type_synonym addr = nat
type_synonym handle = nat

record board_val =
  turn :: color
  fen :: string

text \<open>
  The classes \<open>Cp\<close>, \<open>Mate\<close> and \<open>MateGivenType\<close> of \<open>chess.engine\<close>, with their methods
  \<open>__neg__\<close>, \<open>mate()\<close>, \<open>is_mate()\<close> and \<open>score(mate_score=...)\<close>, and \<open>PovScore\<close> with
  \<open>pov(color)\<close>. They belong to the library, not to the repository; the definitions
  follow the library's documented behaviour.
\<close>

datatype score = Cp int | Mate int | MateGiven

fun neg_score :: "score \<Rightarrow> score" where
  "neg_score (Cp c) = Cp (- c)"
| "neg_score (Mate n) = (if n = 0 then MateGiven else Mate (- n))"
| "neg_score MateGiven = Mate 0"

fun mate :: "score \<Rightarrow> int option" where
  "mate (Cp c) = None"
| "mate (Mate n) = Some n"
| "mate MateGiven = Some 0"

definition is_mate :: "score \<Rightarrow> bool" where
  "is_mate sc = (mate sc \<noteq> None)"

fun score_with :: "score \<Rightarrow> int option \<Rightarrow> int option" where
  "score_with (Cp c) mate_score = Some c"
| "score_with (Mate n) mate_score =
     (case mate_score of
        None \<Rightarrow> None
      | Some m \<Rightarrow> (if n > 0 then Some (m - n) else Some (- m - n)))"
| "score_with MateGiven mate_score = mate_score"

record pov_score =
  relative :: score
  pov_turn :: color

definition pov :: "pov_score \<Rightarrow> color \<Rightarrow> score" where
  "pov ps c = (if pov_turn ps = c then relative ps else neg_score (relative ps))"

text \<open>
  The dictionary \<open>analyse\<close> returns: the keys \<open>"pv"\<close> and \<open>"score"\<close> may be missing. A
  \<open>chess.Move\<close> is represented by the text its \<open>uci()\<close> method returns.
\<close>

type_synonym move = string

record info =
  info_pv :: "move list option"
  info_score :: "pov_score option"

subsection \<open>The engine library as a parameter\<close>

text \<open>
  The worker awaits \<open>popen_uci\<close>, \<open>ping\<close>, \<open>analyse\<close> and \<open>quit\<close> without a timeout. A
  call therefore has one of three outcomes: it returns a value, it raises an exception
  whose \<open>str\<close> is \<open>e\<close>, or it never completes, as with a process that does not speak
  the protocol. Every call the worker makes is logged with its outcome. The library is
  a parameter: each of its functions may answer anything, depending on the calls made
  before.
\<close>

datatype 'a outcome = Returned 'a | Raised string | Pending

datatype call =
    CallPopen string "handle outcome"
  | CallPing handle "unit outcome"
  | CallAnalyse handle board_val real "info outcome"
  | CallQuit handle "unit outcome"

record lib =
  popen_uci :: "call list \<Rightarrow> string \<Rightarrow> handle outcome"
  ping :: "call list \<Rightarrow> handle \<Rightarrow> unit outcome"
  analyse :: "call list \<Rightarrow> handle \<Rightarrow> board_val \<Rightarrow> real \<Rightarrow> info outcome"
  quit :: "call list \<Rightarrow> handle \<Rightarrow> unit outcome"

subsection \<open>Requests, results and the state of the application\<close>

text \<open>
  The tuples put on the request queue are \<open>("connect", path)\<close>,
  \<open>("analyze", (board, time_limit))\<close> and \<open>("quit", None)\<close>; those put on the result queue
  are \<open>("connect_success", None)\<close>, \<open>("connect_fail", text)\<close>,
  \<open>("analysis_result", dict)\<close> and \<open>("error", text)\<close>. The dictionary of an analysis
  result is read with \<open>get\<close>, so each key is optional.
\<close>

datatype request = Connect string | Analyze addr real | Quit

record analysis_result =
  r_move :: "string option"
  r_score :: "pov_score option"
  r_turn :: "color option"

datatype event =
    ConnectSuccess
  | ConnectFail string
  | AnalysisResult analysis_result
  | Error string

text \<open>
  Texts shown in the evaluation label. \<open>MateIn n\<close> is \<open>f"Mate in {n}"\<close>, \<open>MatedIn n\<close> is
  \<open>f"Mated in {n}"\<close>, \<open>Pawns cp\<close> is \<open>f"{cp / 100:.2f}"\<close>; the remaining ones are the
  literal texts \<open>"..."\<close>, \<open>""\<close>, \<open>"(Not available)"\<close>, \<open>"Mate"\<close> and \<open>"0.00"\<close>. The colour
  of a label is kept as the key of the palette it is taken from.
\<close>

datatype eval_text =
  EvalEmpty | EvalDots | NotAvailable | MateText | MateIn int | MatedIn int
  | Pawns int | ZeroText

datatype tint = Accent | Success | Warning | ErrorTint | Muted | TextTint

text \<open>
  The error boxes \<open>messagebox.showerror\<close> opens: "Invalid Stockfish executable. ...",
  "Could not connect to Stockfish:" followed by the cause, and a box with the text of
  an error result.
\<close>

datatype dialog = InvalidExecutable | ConnectionError string | ErrorBox string

text \<open>
  \<open>thread_alive\<close> is \<open>self.engine_thread.is_alive()\<close>: it holds until the loop has left
  through \<open>break\<close>. \<open>stuck\<close> holds once the worker awaits a call that never completes;
  the thread is then alive and does nothing any more. \<open>window_destroyed\<close> holds once
  \<open>self.master.destroy()\<close> has run.
\<close>

record app =
  engine :: "handle option"
  thread_alive :: bool
  stuck :: bool
  window_destroyed :: bool
  request_queue :: "request list"
  result_queue :: "event list"
  calls :: "call list"
  board :: addr
  heap :: "addr \<Rightarrow> board_val"
  next_addr :: addr
  stockfish_path_var :: string
  dialogs :: "dialog list"
  status_label :: "string \<times> tint"
  sf_status_label :: "string \<times> tint"
  analyze_button :: bool
  best_move_label :: string
  evaluation_label :: "eval_text \<times> tint"

subsection \<open>The worker: \<open>_async_engine_handler\<close>\<close>

text \<open>
  The branch \<open>command == "connect"\<close>. First \<open>if self.engine:\<close> with the \<open>quit\<close> whose
  exception is passed over; \<open>self.engine = None\<close> is reached only when \<open>quit\<close> has
  completed. Then the \<open>try\<close> block: \<open>self.engine\<close> is assigned when \<open>popen_uci\<close> returns,
  before the ping is awaited.
\<close>

definition quit_pending :: "lib \<Rightarrow> app \<Rightarrow> bool" where
  "quit_pending l s =
     (case engine s of
        None \<Rightarrow> False
      | Some h \<Rightarrow> quit l (calls s) h = Pending)"

definition quit_existing :: "lib \<Rightarrow> app \<Rightarrow> app" where
  "quit_existing l s =
     (case engine s of
        None \<Rightarrow> s
      | Some h \<Rightarrow>
          (let r = quit l (calls s) h;
               s1 = s\<lparr>calls := calls s @ [CallQuit h r]\<rparr>
           in case r of
                Pending \<Rightarrow> s1\<lparr>stuck := True\<rparr>
              | Returned u \<Rightarrow> s1\<lparr>engine := None\<rparr>
              | Raised e \<Rightarrow> s1\<lparr>engine := None\<rparr>))"

definition launch :: "lib \<Rightarrow> string \<Rightarrow> app \<Rightarrow> app" where
  "launch l sf_path s =
     (let r = popen_uci l (calls s) sf_path;
          s1 = s\<lparr>calls := calls s @ [CallPopen sf_path r]\<rparr>
      in case r of
           Pending \<Rightarrow> s1\<lparr>stuck := True\<rparr>
         | Raised e \<Rightarrow> s1\<lparr>engine := None, result_queue := result_queue s1 @ [ConnectFail e]\<rparr>
         | Returned h \<Rightarrow>
             (let p = ping l (calls s1) h;
                  s2 = s1\<lparr>engine := Some h, calls := calls s1 @ [CallPing h p]\<rparr>
              in case p of
                   Pending \<Rightarrow> s2\<lparr>stuck := True\<rparr>
                 | Returned u \<Rightarrow> s2\<lparr>result_queue := result_queue s2 @ [ConnectSuccess]\<rparr>
                 | Raised e \<Rightarrow>
                     s2\<lparr>engine := None, result_queue := result_queue s2 @ [ConnectFail e]\<rparr>))"

definition handle_connect :: "lib \<Rightarrow> string \<Rightarrow> app \<Rightarrow> app" where
  "handle_connect l sf_path s =
     (if quit_pending l s then quit_existing l s
      else launch l sf_path (quit_existing l s))"

text \<open>
  The branch \<open>command == "analyze"\<close>. \<open>pv = info.get("pv") or []\<close> makes a missing or
  empty line the empty list, and \<open>pv[0].uci() if pv else "N/A"\<close> reads its head only when
  there is one.
\<close>

definition first_move :: "info \<Rightarrow> string" where
  "first_move i =
     (case info_pv i of
        None \<Rightarrow> ''N/A''
      | Some [] \<Rightarrow> ''N/A''
      | Some (m # ms) \<Rightarrow> m)"

definition handle_analyze :: "lib \<Rightarrow> addr \<Rightarrow> real \<Rightarrow> app \<Rightarrow> app" where
  "handle_analyze l board_to_analyze time_limit s =
     (case engine s of
        None \<Rightarrow> s\<lparr>result_queue := result_queue s @ [Error ''Engine is not connected.'']\<rparr>
      | Some h \<Rightarrow>
          (let b = heap s board_to_analyze;
               r = analyse l (calls s) h b time_limit;
               s1 = s\<lparr>calls := calls s @ [CallAnalyse h b time_limit r]\<rparr>
           in case r of
                Returned i \<Rightarrow>
                  s1\<lparr>result_queue := result_queue s1 @
                       [AnalysisResult \<lparr>r_move = Some (first_move i), r_score = info_score i,
                                        r_turn = Some (turn b)\<rparr>]\<rparr>
              | Raised e \<Rightarrow>
                  s1\<lparr>result_queue := result_queue s1 @ [Error (''Analysis failed: '' @ e)]\<rparr>
              | Pending \<Rightarrow> s1\<lparr>stuck := True\<rparr>))"

text \<open>
  The branch \<open>command == "quit"\<close>: an exception of \<open>quit\<close> is passed over, then
  \<open>break\<close>. When \<open>quit\<close> never completes, \<open>break\<close> is not reached.
\<close>

definition handle_quit :: "lib \<Rightarrow> app \<Rightarrow> app" where
  "handle_quit l s =
     (case engine s of
        None \<Rightarrow> s\<lparr>thread_alive := False\<rparr>
      | Some h \<Rightarrow>
          (let r = quit l (calls s) h;
               s1 = s\<lparr>calls := calls s @ [CallQuit h r]\<rparr>
           in case r of
                Pending \<Rightarrow> s1\<lparr>stuck := True\<rparr>
              | Returned u \<Rightarrow> s1\<lparr>thread_alive := False\<rparr>
              | Raised e \<Rightarrow> s1\<lparr>thread_alive := False\<rparr>))"

fun handle_request :: "lib \<Rightarrow> request \<Rightarrow> app \<Rightarrow> app" where
  "handle_request l (Connect sf_path) s = handle_connect l sf_path s"
| "handle_request l (Analyze b t) s = handle_analyze l b t s"
| "handle_request l Quit s = handle_quit l s"

text \<open>
  One turn of the \<open>while True\<close> loop: an empty queue raises \<open>queue.Empty\<close> after the
  timeout and the loop continues; otherwise the oldest request is taken and handled.
  Once the loop has left through \<open>break\<close> the thread has ended, and while a call never
  completes the loop does not come round again: in both cases nothing is taken any
  more.
\<close>

definition handler_turn :: "lib \<Rightarrow> app \<Rightarrow> app" where
  "handler_turn l s =
     (if \<not> thread_alive s \<or> stuck s then s
      else case request_queue s of
             [] \<Rightarrow> s
           | r # rest \<Rightarrow> handle_request l r (s\<lparr>request_queue := rest\<rparr>))"

text \<open>
  The loop, run until the queue is empty, the thread has ended, or a call never
  completes. With an empty queue the source keeps polling and changes nothing, so the
  value is the state in which the worker waits.
\<close>

fun worker_turns :: "lib \<Rightarrow> nat \<Rightarrow> app \<Rightarrow> app" where
  "worker_turns l 0 s = s"
| "worker_turns l (Suc n) s = worker_turns l n (handler_turn l s)"

function async_engine_handler :: "lib \<Rightarrow> app \<Rightarrow> app" where
  "async_engine_handler l s =
     (if thread_alive s \<and> \<not> stuck s \<and> request_queue s \<noteq> []
      then async_engine_handler l (handler_turn l s)
      else s)"
  by pat_completeness auto
termination
proof (relation "measure (\<lambda>(l, s). length (request_queue s))")
  fix l :: lib and s :: app
  assume a: "thread_alive s \<and> \<not> stuck s \<and> request_queue s \<noteq> []"
  then obtain r rest where q: "request_queue s = r # rest"
    by (cases "request_queue s") auto
  have "request_queue (handle_request l r (s\<lparr>request_queue := rest\<rparr>)) = rest"
    by (cases r)
       (simp_all add: handle_connect_def launch_def quit_existing_def handle_analyze_def
          handle_quit_def Let_def split: option.splits outcome.splits)
  with a q show "((l, handler_turn l s), (l, s)) \<in> measure (\<lambda>(l, s). length (request_queue s))"
    by (simp add: handler_turn_def)
qed simp

declare async_engine_handler.simps [simp del]

subsection \<open>The user interface's side of the session\<close>

text \<open>
  \<open>str.strip()\<close> on the text of the path entry. A character stands for a code point
  below 256, and the white space removed is what \<open>str.isspace\<close> holds for there: tab,
  line feed, vertical tab, form feed, carriage return, the four separators 0x1C to
  0x1F, the blank, the next-line character 0x85 and the no-break space 0xA0.
\<close>

definition is_space :: "char \<Rightarrow> bool" where
  "is_space c =
     (c \<in> set [CHR 0x09, CHR 0x0A, CHR 0x0B, CHR 0x0C, CHR 0x0D,
                CHR 0x1C, CHR 0x1D, CHR 0x1E, CHR 0x1F, CHR 0x20, CHR 0x85, CHR 0xA0])"

definition strip :: "string \<Rightarrow> string" where
  "strip v = rev (dropWhile is_space (rev (dropWhile is_space v)))"

text \<open>
  The file system and the search path, as \<open>os.path.isfile\<close>, \<open>os.access(_, os.X_OK)\<close>,
  \<open>shutil.which\<close> and \<open>os.path.abspath\<close> answer: a parameter.
\<close>

record os_env =
  isfile :: "string \<Rightarrow> bool"
  access_x :: "string \<Rightarrow> bool"
  which :: "string \<Rightarrow> string option"
  abspath :: "string \<Rightarrow> string"

definition resolve_engine_path :: "os_env \<Rightarrow> string \<Rightarrow> string option" where
  "resolve_engine_path env user_value =
     (if user_value = [] then None
      else if isfile env user_value then
        (if access_x env user_value then Some (abspath env user_value) else None)
      else
        (case which env user_value of
           None \<Rightarrow> None
         | Some resolved \<Rightarrow>
             (if resolved \<noteq> [] \<and> isfile env resolved \<and> access_x env resolved
              then Some resolved else None)))"

text \<open>
  \<open>_connect_to_stockfish\<close>: \<open>if not resolved\<close> holds for \<open>None\<close> and for the empty
  text; then the error box "Invalid Stockfish executable. ..." is shown and the function
  returns. Otherwise the connect request is queued.
\<close>

definition connect_to_stockfish :: "os_env \<Rightarrow> app \<Rightarrow> app" where
  "connect_to_stockfish env s =
     (let user_value = strip (stockfish_path_var s);
          resolved = resolve_engine_path env user_value
      in case resolved of
           None \<Rightarrow> s\<lparr>dialogs := dialogs s @ [InvalidExecutable]\<rparr>
         | Some p \<Rightarrow>
             (if p = [] then s\<lparr>dialogs := dialogs s @ [InvalidExecutable]\<rparr>
              else s\<lparr>request_queue := request_queue s @ [Connect p],
                     status_label := (''Attempting to connect to Stockfish...'', Warning)\<rparr>))"

text \<open>
  \<open>_start_analysis\<close>: \<open>self.board.copy()\<close> makes a new board object holding the value
  of the live board; the request carries the new object and the constant \<open>2.0\<close>.
\<close>

definition start_analysis :: "app \<Rightarrow> app" where
  "start_analysis s =
     s\<lparr>status_label := (''Analyzing position...'', Warning),
       analyze_button := False,
       best_move_label := ''...'',
       evaluation_label := (EvalDots, snd (evaluation_label s)),
       heap := (heap s)(next_addr s := heap s (board s)),
       next_addr := Suc (next_addr s),
       request_queue := request_queue s @ [Analyze (next_addr s) 2]\<rparr>"

text \<open>
  The live board is changed in place only: \<open>self.board.push(move)\<close> in
  \<open>_on_square_click\<close> and \<open>self.board.set_fen(fen)\<close> in \<open>_reset_board_from_fen\<close> update
  the object \<open>self.board\<close> refers to, and \<open>self.board\<close> is never assigned again. The
  change of the board's value is the library's and is the parameter \<open>f\<close>.
\<close>

definition board_update :: "(board_val \<Rightarrow> board_val) \<Rightarrow> app \<Rightarrow> app" where
  "board_update f s = s\<lparr>heap := (heap s)(board s := f (heap s (board s)))\<rparr>"

text \<open>\<open>_update_gui_with_analysis\<close>.\<close>

definition evaluation_of :: "score \<Rightarrow> eval_text \<times> tint" where
  "evaluation_of pov_sc =
     (if is_mate pov_sc then
        (case mate pov_sc of
           None \<Rightarrow> (MateText, TextTint)
         | Some mate_moves \<Rightarrow>
             (if mate_moves > 0 then (MateIn mate_moves, Success)
              else (MatedIn (- mate_moves), ErrorTint)))
      else
        (case score_with pov_sc (Some 10000) of
           None \<Rightarrow> (ZeroText, TextTint)
         | Some cp_score \<Rightarrow>
             (if cp_score > 50 then (Pawns cp_score, Success)
              else if cp_score < - 50 then (Pawns cp_score, ErrorTint)
              else (Pawns cp_score, TextTint))))"

definition update_gui_with_analysis :: "analysis_result \<Rightarrow> app \<Rightarrow> app" where
  "update_gui_with_analysis result s =
     (let analyzed_turn = (case r_turn result of
                             Some t \<Rightarrow> t
                           | None \<Rightarrow> turn (heap s (board s)));
          s1 = s\<lparr>best_move_label :=
                   (case r_move result of
                      None \<Rightarrow> ''N/A''
                    | Some m \<Rightarrow> (if m = [] then ''N/A'' else m))\<rparr>
      in case r_score result of
           None \<Rightarrow> s1\<lparr>evaluation_label := (NotAvailable, Muted)\<rparr>
         | Some score_obj \<Rightarrow>
             s1\<lparr>evaluation_label := evaluation_of (pov score_obj analyzed_turn)\<rparr>)"

text \<open>\<open>_check_result_queue\<close>: \<open>get_nowait\<close> takes the oldest result, if there is one.\<close>

fun show_event :: "event \<Rightarrow> app \<Rightarrow> app" where
  "show_event ConnectSuccess s =
     s\<lparr>sf_status_label := (''Status: Connected!'', Success),
       analyze_button := True,
       status_label := (''Stockfish connected. Ready to analyze.'', Success)\<rparr>"
| "show_event (ConnectFail data) s =
     s\<lparr>sf_status_label := (''Status: Connection failed'', ErrorTint),
       analyze_button := False,
       status_label := (''Connection failed.'', ErrorTint),
       dialogs := dialogs s @ [ConnectionError data]\<rparr>"
| "show_event (AnalysisResult data) s =
     (update_gui_with_analysis data s)
       \<lparr>status_label := (''Analysis complete.'', Success), analyze_button := True\<rparr>"
| "show_event (Error data) s =
     s\<lparr>dialogs := dialogs s @ [ErrorBox data],
       status_label := (''Error: '' @ data, ErrorTint),
       analyze_button := True\<rparr>"

definition check_result_queue :: "app \<Rightarrow> app" where
  "check_result_queue s =
     (case result_queue s of
        [] \<Rightarrow> s
      | ev # rest \<Rightarrow> show_event ev (s\<lparr>result_queue := rest\<rparr>))"

text \<open>
  \<open>_on_closing\<close>. The quit request is queued; the queue is unbounded, so the \<open>put\<close>
  inside \<open>try\<close> does not raise. If the thread is alive it is joined for at most two
  seconds: the caller waits while the worker completes some number \<open>n\<close> of turns of its
  loop, and goes on whether or not the worker has ended by then. Last comes
  \<open>self.master.destroy()\<close>, outside any \<open>try\<close>: the toolkit's \<open>Tk.destroy\<close> runs the Tcl
  command \<open>destroy\<close> on the root window, which raises \<open>TclError\<close> ("application has been
  destroyed") when the window has been destroyed before. The value is the exception
  raised to the caller, if any, and the state left behind.
\<close>

datatype ui_error = TclError

definition on_closing :: "lib \<Rightarrow> nat \<Rightarrow> app \<Rightarrow> ui_error option \<times> app" where
  "on_closing l n s =
     (let s1 = s\<lparr>request_queue := request_queue s @ [Quit]\<rparr>;
          s2 = (if thread_alive s1 then worker_turns l n s1 else s1)
      in if window_destroyed s2 then (Some TclError, s2)
         else (None, s2\<lparr>window_destroyed := True\<rparr>))"

text \<open>
  The state \<open>__init__\<close> builds: no engine, empty queues, the worker started, the board
  of the starting position, and the path entry filled when
  \<open>shutil.which("stockfish-ubuntu-x86-64-avx2")\<close> finds the engine.
\<close>

definition starting_board :: board_val where
  "starting_board =
     \<lparr>turn = True, fen = ''rnbqkbnr/pppppppp/8/8/8/8/PPPPPPPP/RNBQKBNR w KQkq - 0 1''\<rparr>"

definition init_app :: "os_env \<Rightarrow> app" where
  "init_app env =
     (let detected = which env ''stockfish-ubuntu-x86-64-avx2'';
          found = (case detected of None \<Rightarrow> False | Some d \<Rightarrow> d \<noteq> [])
      in \<lparr>engine = None, thread_alive = True, stuck = False, window_destroyed = False,
           request_queue = [], result_queue = [],
           calls = [], board = 0, heap = (\<lambda>a. starting_board), next_addr = 1,
           stockfish_path_var = (case detected of None \<Rightarrow> [] | Some d \<Rightarrow> d),
           dialogs = [],
           status_label =
             (if found then (''Detected Stockfish in PATH. Click Connect to Stockfish.'', Accent)
              else (''Ready. Provide Stockfish path (or stockfish).'', Accent)),
           sf_status_label = (''Status: Not connected'', ErrorTint),
           analyze_button = False, best_move_label = [],
           evaluation_label = (EvalEmpty, TextTint)\<rparr>)"

subsection \<open>Schedules of the two threads\<close>

text \<open>
  What the user interface and the worker can do to the state, one step at a time, in
  any order: a change of the live board in place, a press of "Analyze Position", a
  press of "Connect to Stockfish" with a text in the path entry, a poll of the result
  queue, closing the window (with the number of turns the worker completes during the
  join; an exception of the handler is reported by the toolkit and the state stays as
  the handler left it), and one turn of the worker's loop.
\<close>

datatype action =
    ChangeBoard "board_val \<Rightarrow> board_val"
  | PressAnalyze
  | PressConnect string
  | Poll
  | Close nat
  | WorkerTurn

fun perform :: "lib \<Rightarrow> os_env \<Rightarrow> action \<Rightarrow> app \<Rightarrow> app" where
  "perform l env (ChangeBoard f) s = board_update f s"
| "perform l env PressAnalyze s = start_analysis s"
| "perform l env (PressConnect v) s = connect_to_stockfish env (s\<lparr>stockfish_path_var := v\<rparr>)"
| "perform l env Poll s = check_result_queue s"
| "perform l env (Close n) s = snd (on_closing l n s)"
| "perform l env WorkerTurn s = handler_turn l s"

definition run :: "lib \<Rightarrow> os_env \<Rightarrow> action list \<Rightarrow> app \<Rightarrow> app" where
  "run l env acts s = fold (perform l env) acts s"


subsection \<open>Engines and a file system to run the definitions on\<close>

text \<open>
  \<open>stub_lib\<close> is an engine that always starts (as object 1), answers the ping, and
  reports the line \<open>e2e4\<close> with a score of 35 centipawns for the side to move.
  \<open>crash_lib\<close> starts and answers the ping, but its process dies afterwards: every
  later call raises. \<open>mute_lib\<close> starts, but its ping raises; \<open>absent_lib\<close> cannot be
  started. \<open>silent_lib\<close> is a program that does not speak the protocol: \<open>popen_uci\<close>,
  which awaits the answer to the first handshake, never completes. \<open>hung_lib\<close> is an
  engine that stops answering once connected: \<open>analyse\<close> and \<open>quit\<close> never complete.
  \<open>mating_lib\<close> reports a mate in three for the side to move and no line. \<open>bare_os\<close> is
  a file system holding the one executable \<open>/usr/bin/stockfish\<close>, found on the search
  path under the name \<open>stockfish\<close>, and the file \<open>/etc/motd\<close>, which is not executable.
\<close>

definition stub_lib :: lib where
  "stub_lib =
     \<lparr>popen_uci = (\<lambda>cs p. Returned 1),
      ping = (\<lambda>cs h. Returned ()),
      analyse = (\<lambda>cs h b t.
        Returned \<lparr>info_pv = Some [''e2e4''],
                  info_score = Some \<lparr>relative = Cp 35, pov_turn = turn b\<rparr>\<rparr>),
      quit = (\<lambda>cs h. Returned ())\<rparr>"

definition crash_lib :: lib where
  "crash_lib =
     \<lparr>popen_uci = (\<lambda>cs p. Returned 1),
      ping = (\<lambda>cs h. Returned ()),
      analyse = (\<lambda>cs h b t. Raised ''engine process died unexpectedly''),
      quit = (\<lambda>cs h. Raised ''engine process died unexpectedly'')\<rparr>"




definition hung_lib :: lib where
  "hung_lib =
     \<lparr>popen_uci = (\<lambda>cs p. Returned 1),
      ping = (\<lambda>cs h. Returned ()),
      analyse = (\<lambda>cs h b t. Pending),
      quit = (\<lambda>cs h. Pending)\<rparr>"

definition mating_lib :: lib where
  "mating_lib =
     \<lparr>popen_uci = (\<lambda>cs p. Returned 1),
      ping = (\<lambda>cs h. Returned ()),
      analyse = (\<lambda>cs h b t.
        Returned \<lparr>info_pv = Some [],
                  info_score = Some \<lparr>relative = Mate 3, pov_turn = turn b\<rparr>\<rparr>),
      quit = (\<lambda>cs h. Returned ())\<rparr>"

definition bare_os :: os_env where
  "bare_os =
     \<lparr>isfile = (\<lambda>p. p = ''/usr/bin/stockfish'' \<or> p = ''/etc/motd''),
      access_x = (\<lambda>p. p = ''/usr/bin/stockfish''),
      which = (\<lambda>n. if n = ''stockfish'' then Some ''/usr/bin/stockfish'' else None),
      abspath = (\<lambda>p. p)\<rparr>"

text \<open>
  The state after the user has entered \<open>stockfish\<close>, pressed "Connect to Stockfish",
  and the worker has connected to the engine \<open>l\<close>.
\<close>

definition connected_app :: "lib \<Rightarrow> app" where
  "connected_app l = run l bare_os [PressConnect ''stockfish'', WorkerTurn] (init_app bare_os)"

section \<open>Properties\<close>

subsection \<open>The branches of the worker, one by one\<close>

lemma quit_existing_cases:
  "engine s = None \<Longrightarrow> quit_existing l s = s"
  "engine s = Some h \<Longrightarrow> quit l (calls s) h = Pending \<Longrightarrow>
     quit_existing l s = s\<lparr>calls := calls s @ [CallQuit h Pending], stuck := True\<rparr>"
  "engine s = Some h \<Longrightarrow> quit l (calls s) h \<noteq> Pending \<Longrightarrow>
     quit_existing l s = s\<lparr>calls := calls s @ [CallQuit h (quit l (calls s) h)], engine := None\<rparr>"
  by (simp_all add: quit_existing_def Let_def split: outcome.splits)

lemma quit_existing_frame [simp]:
  "request_queue (quit_existing l s) = request_queue s"
  "result_queue (quit_existing l s) = result_queue s"
  "thread_alive (quit_existing l s) = thread_alive s"
  "heap (quit_existing l s) = heap s"
  "board (quit_existing l s) = board s"
  "next_addr (quit_existing l s) = next_addr s"
  "window_destroyed (quit_existing l s) = window_destroyed s"
  by (simp_all add: quit_existing_def Let_def split: option.splits outcome.splits)


lemma launch_frame [simp]:
  "request_queue (launch l p s) = request_queue s"
  "thread_alive (launch l p s) = thread_alive s"
  "heap (launch l p s) = heap s"
  "board (launch l p s) = board s"
  "next_addr (launch l p s) = next_addr s"
  "window_destroyed (launch l p s) = window_destroyed s"
  by (simp_all add: launch_def Let_def split: outcome.splits)



lemma handle_analyze_frame [simp]:
  "request_queue (handle_analyze l b t s) = request_queue s"
  "thread_alive (handle_analyze l b t s) = thread_alive s"
  "heap (handle_analyze l b t s) = heap s"
  "board (handle_analyze l b t s) = board s"
  "next_addr (handle_analyze l b t s) = next_addr s"
  "window_destroyed (handle_analyze l b t s) = window_destroyed s"
  by (simp_all add: handle_analyze_def Let_def split: option.splits outcome.splits)



lemma handle_quit_frame [simp]:
  "request_queue (handle_quit l s) = request_queue s"
  "result_queue (handle_quit l s) = result_queue s"
  "engine (handle_quit l s) = engine s"
  "heap (handle_quit l s) = heap s"
  "board (handle_quit l s) = board s"
  "next_addr (handle_quit l s) = next_addr s"
  "window_destroyed (handle_quit l s) = window_destroyed s"
  by (simp_all add: handle_quit_def Let_def split: option.splits outcome.splits)

lemma handle_quit_effect:
  "\<not> thread_alive (handle_quit l s) \<or> stuck (handle_quit l s)"
  by (simp add: handle_quit_def Let_def split: option.splits outcome.splits)

lemma handle_connect_frame [simp]:
  "request_queue (handle_connect l p s) = request_queue s"
  "thread_alive (handle_connect l p s) = thread_alive s"
  "heap (handle_connect l p s) = heap s"
  "board (handle_connect l p s) = board s"
  "next_addr (handle_connect l p s) = next_addr s"
  "window_destroyed (handle_connect l p s) = window_destroyed s"
  by (simp_all add: handle_connect_def)



subsection \<open>The loop and its turns\<close>

lemma queue_update_commutes:
  "quit_pending l (s\<lparr>request_queue := q\<rparr>) = quit_pending l s"
  "quit_existing l (s\<lparr>request_queue := q\<rparr>) = (quit_existing l s)\<lparr>request_queue := q\<rparr>"
  "launch l p (s\<lparr>request_queue := q\<rparr>) = (launch l p s)\<lparr>request_queue := q\<rparr>"
  "handle_analyze l b t (s\<lparr>request_queue := q\<rparr>) = (handle_analyze l b t s)\<lparr>request_queue := q\<rparr>"
  "handle_quit l (s\<lparr>request_queue := q\<rparr>) = (handle_quit l s)\<lparr>request_queue := q\<rparr>"
  by (simp_all add: quit_pending_def quit_existing_def launch_def handle_analyze_def
        handle_quit_def Let_def split: option.splits outcome.splits)

lemma request_queue_handle_request [simp]:
  "request_queue (handle_request l r s) = request_queue s"
  by (cases r) simp_all

lemma frame_handle_request [simp]:
  "heap (handle_request l r s) = heap s"
  "board (handle_request l r s) = board s"
  "next_addr (handle_request l r s) = next_addr s"
  "window_destroyed (handle_request l r s) = window_destroyed s"
  by (cases r; simp)+

lemma handler_unfold:
  "thread_alive s \<Longrightarrow> \<not> stuck s \<Longrightarrow> request_queue s \<noteq> [] \<Longrightarrow>
   async_engine_handler l s = async_engine_handler l (handler_turn l s)"
  by (subst async_engine_handler.simps) simp

lemma handler_idle:
  "\<not> thread_alive s \<or> stuck s \<or> request_queue s = [] \<Longrightarrow> async_engine_handler l s = s"
  by (subst async_engine_handler.simps) auto




lemma handle_request_queue_update:
  "handle_request l r (s\<lparr>request_queue := q\<rparr>) = (handle_request l r s)\<lparr>request_queue := q\<rparr>"
  by (cases r) (simp_all add: handle_connect_def queue_update_commutes)



lemma quit_ends_worker:
  "Quit \<in> set (request_queue s) \<Longrightarrow>
   \<not> thread_alive (async_engine_handler l s) \<or> stuck (async_engine_handler l s)"
proof (induction l s rule: async_engine_handler.induct)
  case (1 l s)
  show ?case
  proof (cases "thread_alive s \<and> \<not> stuck s \<and> request_queue s \<noteq> []")
    case False
    with "1.prems" have "\<not> thread_alive s \<or> stuck s" by auto
    then show ?thesis by (auto simp add: handler_idle)
  next
    case True
    then obtain r rest where q: "request_queue s = r # rest"
      by (cases "request_queue s") auto
    from True have unf: "async_engine_handler l s = async_engine_handler l (handler_turn l s)"
      by (simp add: handler_unfold)
    from True q have turn: "handler_turn l s = handle_request l r (s\<lparr>request_queue := rest\<rparr>)"
      by (simp add: handler_turn_def)
    show ?thesis
    proof (cases "r = Quit")
      case rq: True
      with turn have "\<not> thread_alive (handler_turn l s) \<or> stuck (handler_turn l s)"
        using handle_quit_effect [of l "s\<lparr>request_queue := rest\<rparr>"] by simp
      with unf show ?thesis by (auto simp add: handler_idle)
    next
      case False
      with "1.prems" q turn have "Quit \<in> set (request_queue (handler_turn l s))" by simp
      from "1.IH" [OF True this] unf show ?thesis by simp
    qed
  qed
qed

lemma stuck_stays:
  "stuck s \<Longrightarrow> handler_turn l s = s \<and> worker_turns l n s = s \<and> async_engine_handler l s = s"
  by (induction n) (simp_all add: handler_turn_def handler_idle)

lemma ended_stays:
  "\<not> thread_alive s \<Longrightarrow>
   handler_turn l s = s \<and> worker_turns l n s = s \<and> async_engine_handler l s = s"
  by (induction n) (simp_all add: handler_turn_def handler_idle)

text \<open>The worker, the polling of results and the closing leave the boards alone.\<close>

lemma frame_handler_turn [simp]:
  "heap (handler_turn l s) = heap s"
  "board (handler_turn l s) = board s"
  "next_addr (handler_turn l s) = next_addr s"
  "window_destroyed (handler_turn l s) = window_destroyed s"
  by (simp_all add: handler_turn_def split: list.splits)

lemma frame_worker_turns [simp]:
  "heap (worker_turns l n s) = heap s"
  "board (worker_turns l n s) = board s"
  "next_addr (worker_turns l n s) = next_addr s"
  "window_destroyed (worker_turns l n s) = window_destroyed s"
  by (induction n arbitrary: s; simp)+

lemma frame_on_closing [simp]:
  "heap (snd (on_closing l n s)) = heap s"
  "board (snd (on_closing l n s)) = board s"
  "next_addr (snd (on_closing l n s)) = next_addr s"
  by (simp_all add: on_closing_def Let_def)

lemma frame_show_event [simp]:
  "heap (show_event ev s) = heap s"
  "board (show_event ev s) = board s"
  "next_addr (show_event ev s) = next_addr s"
  "engine (show_event ev s) = engine s"
  "calls (show_event ev s) = calls s"
  "request_queue (show_event ev s) = request_queue s"
  "result_queue (show_event ev s) = result_queue s"
  "thread_alive (show_event ev s) = thread_alive s"
  "stuck (show_event ev s) = stuck s"
  by (cases ev; simp add: update_gui_with_analysis_def Let_def split: option.splits)+

lemma frame_check_result_queue [simp]:
  "heap (check_result_queue s) = heap s"
  "board (check_result_queue s) = board s"
  "next_addr (check_result_queue s) = next_addr s"
  "engine (check_result_queue s) = engine s"
  "calls (check_result_queue s) = calls s"
  "request_queue (check_result_queue s) = request_queue s"
  "thread_alive (check_result_queue s) = thread_alive s"
  "stuck (check_result_queue s) = stuck s"
  by (simp_all add: check_result_queue_def split: list.splits)


text \<open>The definitions needed to run a schedule on the initial state.\<close>

lemmas ui_defs =
  run_def init_app_def bare_os_def connect_to_stockfish_def strip_def is_space_def
  resolve_engine_path_def start_analysis_def board_update_def Let_def

lemmas worker_defs =
  handler_turn_def handle_connect_def launch_def quit_existing_def quit_pending_def
  handle_analyze_def handle_quit_def first_move_def

subsection \<open>Requests are answered one by one, in the order of the queue\<close>




subsection \<open>Analysis without an engine\<close>

text \<open>
  Claim C4. When the worker takes an analyze request while \<open>self.engine\<close> is \<open>None\<close>,
  it puts the one result \<open>("error", "Engine is not connected.")\<close> on the result queue,
  makes no call on the engine library (no process is touched or started), keeps the
  engine reference \<open>None\<close>, stays alive and goes on with the rest of the queue.
\<close>

theorem analyze_without_engine:
  "engine s = None \<Longrightarrow> thread_alive s \<Longrightarrow> \<not> stuck s \<Longrightarrow>
   request_queue s = Analyze b t # rest \<Longrightarrow>
     handler_turn l s =
       s\<lparr>request_queue := rest,
         result_queue := result_queue s @ [Error ''Engine is not connected.'']\<rparr>
   \<and> calls (handler_turn l s) = calls s
   \<and> engine (handler_turn l s) = None
   \<and> thread_alive (handler_turn l s)
   \<and> \<not> stuck (handler_turn l s)
   \<and> async_engine_handler l s = async_engine_handler l (handler_turn l s)"
  by (simp add: handler_turn_def handle_analyze_def handler_unfold)

theorem analyze_without_engine_witness:
  "engine (start_analysis (init_app bare_os)) = None
   \<and> thread_alive (start_analysis (init_app bare_os))
   \<and> stuck (start_analysis (init_app bare_os)) = False
   \<and> request_queue (start_analysis (init_app bare_os)) = [Analyze 1 2]
   \<and> result_queue (handler_turn crash_lib (start_analysis (init_app bare_os)))
       = [Error ''Engine is not connected.'']
   \<and> calls (handler_turn crash_lib (start_analysis (init_app bare_os))) = []"
  using analyze_without_engine [of "start_analysis (init_app bare_os)" 1 2 "[]" crash_lib]
  by (simp add: start_analysis_def init_app_def bare_os_def)

subsection \<open>One engine reference, replaced in order\<close>

text \<open>
  Claim C1. The session has the single reference \<open>self.engine\<close>, which holds no engine
  or one. When the worker handles a connect request while the reference holds an
  engine, it first calls \<open>quit\<close> on that engine. Only when \<open>quit\<close> has completed,
  whether it returned or raised, the reference is cleared, and only then the new
  process is started and, if that succeeded, pinged; afterwards the reference holds the
  newly started engine or nothing. While \<open>quit\<close> stays pending nothing is started and the
  reference keeps the old engine.
\<close>

theorem connect_replaces_engine:
  "engine s = Some h \<Longrightarrow>
     calls (quit_existing l s) = calls s @ [CallQuit h (quit l (calls s) h)]
   \<and> (quit l (calls s) h = Pending \<longrightarrow>
        handle_request l (Connect p) s =
          s\<lparr>calls := calls s @ [CallQuit h Pending], stuck := True\<rparr>)
   \<and> (quit l (calls s) h \<noteq> Pending \<longrightarrow>
        engine (quit_existing l s) = None
      \<and> calls (handle_request l (Connect p) s) =
          calls (quit_existing l s)
            @ CallPopen p (popen_uci l (calls (quit_existing l s)) p)
            # (case popen_uci l (calls (quit_existing l s)) p of
                 Returned h' \<Rightarrow>
                   [CallPing h' (ping l (calls (quit_existing l s)
                                          @ [CallPopen p (Returned h')]) h')]
               | Raised e \<Rightarrow> []
               | Pending \<Rightarrow> [])
      \<and> engine (handle_request l (Connect p) s) =
          (case popen_uci l (calls (quit_existing l s)) p of
             Returned h' \<Rightarrow>
               (case ping l (calls (quit_existing l s) @ [CallPopen p (Returned h')]) h' of
                  Returned u \<Rightarrow> Some h'
                | Raised e \<Rightarrow> None
                | Pending \<Rightarrow> Some h')
           | Raised e \<Rightarrow> None
           | Pending \<Rightarrow> None))"
proof (intro conjI impI)
  assume e: "engine s = Some h"
  show "calls (quit_existing l s) = calls s @ [CallQuit h (quit l (calls s) h)]"
    using e by (simp add: quit_existing_def Let_def split: outcome.splits)
  {
    assume "quit l (calls s) h = Pending"
    with e show "handle_request l (Connect p) s =
          s\<lparr>calls := calls s @ [CallQuit h Pending], stuck := True\<rparr>"
      by (simp add: handle_connect_def quit_pending_def quit_existing_cases)
  }
  {
    assume np: "quit l (calls s) h \<noteq> Pending"
    let ?q = "quit_existing l s"
    from e np show qn: "engine ?q = None"
      by (simp add: quit_existing_cases)
    from e np have hc: "handle_request l (Connect p) s = launch l p ?q"
      by (simp add: handle_connect_def quit_pending_def)
    show "calls (handle_request l (Connect p) s) =
          calls ?q @ CallPopen p (popen_uci l (calls ?q) p)
            # (case popen_uci l (calls ?q) p of
                 Returned h' \<Rightarrow>
                   [CallPing h' (ping l (calls ?q @ [CallPopen p (Returned h')]) h')]
               | Raised e \<Rightarrow> []
               | Pending \<Rightarrow> [])"
      unfolding hc by (simp add: launch_def Let_def split: outcome.splits)
    show "engine (handle_request l (Connect p) s) =
          (case popen_uci l (calls ?q) p of
             Returned h' \<Rightarrow>
               (case ping l (calls ?q @ [CallPopen p (Returned h')]) h' of
                  Returned u \<Rightarrow> Some h'
                | Raised e \<Rightarrow> None
                | Pending \<Rightarrow> Some h')
           | Raised e \<Rightarrow> None
           | Pending \<Rightarrow> None)"
      unfolding hc using qn by (simp add: launch_def Let_def split: outcome.splits)
  }
qed

theorem connect_replaces_engine_witness:
  "engine (connected_app crash_lib) = Some 1
   \<and> calls (connected_app crash_lib) =
       [CallPopen ''/usr/bin/stockfish'' (Returned 1), CallPing 1 (Returned ())]
   \<and> quit crash_lib (calls (connected_app crash_lib)) 1 = Raised ''engine process died unexpectedly''
   \<and> calls (handle_request crash_lib (Connect ''/usr/bin/stockfish'') (connected_app crash_lib)) =
       [CallPopen ''/usr/bin/stockfish'' (Returned 1), CallPing 1 (Returned ()),
        CallQuit 1 (Raised ''engine process died unexpectedly''),
        CallPopen ''/usr/bin/stockfish'' (Returned 1), CallPing 1 (Returned ())]
   \<and> engine (handle_request crash_lib (Connect ''/usr/bin/stockfish'') (connected_app crash_lib)) = Some 1
   \<and> quit hung_lib (calls (connected_app crash_lib)) 1 = Pending
   \<and> calls (handle_request hung_lib (Connect ''/usr/bin/stockfish'') (connected_app crash_lib)) =
       [CallPopen ''/usr/bin/stockfish'' (Returned 1), CallPing 1 (Returned ()),
        CallQuit 1 Pending]
   \<and> engine (handle_request hung_lib (Connect ''/usr/bin/stockfish'') (connected_app crash_lib)) = Some 1"
proof -
  let ?s = "connected_app crash_lib"
  have e: "engine ?s = Some 1"
    and c: "calls ?s = [CallPopen ''/usr/bin/stockfish'' (Returned 1), CallPing 1 (Returned ())]"
    by (simp_all add: connected_app_def ui_defs worker_defs crash_lib_def)
  have q1: "quit crash_lib (calls ?s) 1 = Raised ''engine process died unexpectedly''"
    by (simp add: crash_lib_def)
  have q2: "quit hung_lib (calls ?s) 1 = Pending"
    by (simp add: hung_lib_def)
  have qe: "calls (quit_existing crash_lib ?s) =
      [CallPopen ''/usr/bin/stockfish'' (Returned 1), CallPing 1 (Returned ()),
       CallQuit 1 (Raised ''engine process died unexpectedly'')]"
    using connect_replaces_engine [OF e, of crash_lib] q1 c by simp
  have 1: "calls (handle_request crash_lib (Connect ''/usr/bin/stockfish'') ?s) =
       [CallPopen ''/usr/bin/stockfish'' (Returned 1), CallPing 1 (Returned ()),
        CallQuit 1 (Raised ''engine process died unexpectedly''),
        CallPopen ''/usr/bin/stockfish'' (Returned 1), CallPing 1 (Returned ())]"
    and 2: "engine (handle_request crash_lib (Connect ''/usr/bin/stockfish'') ?s) = Some 1"
    using connect_replaces_engine [OF e, of crash_lib "''/usr/bin/stockfish''"] q1 qe
    by (simp_all add: crash_lib_def)
  have 3: "handle_request hung_lib (Connect ''/usr/bin/stockfish'') ?s =
       ?s\<lparr>calls := calls ?s @ [CallQuit 1 Pending], stuck := True\<rparr>"
    using connect_replaces_engine [OF e, of hung_lib "''/usr/bin/stockfish''"] q2 by blast
  have 4: "calls (handle_request hung_lib (Connect ''/usr/bin/stockfish'') ?s) =
       [CallPopen ''/usr/bin/stockfish'' (Returned 1), CallPing 1 (Returned ()),
        CallQuit 1 Pending]"
    and 5: "engine (handle_request hung_lib (Connect ''/usr/bin/stockfish'') ?s) = Some 1"
    by (simp_all only: 3) (simp_all add: c e)
  from e c q1 q2 1 2 4 5 show ?thesis
    by (simp only: simp_thms)
qed

subsection \<open>An empty line gives the sentinel\<close>

text \<open>
  Claim C9. When the analysis succeeds and the reported principal variation is missing
  or empty, the worker does not read its first move: the result carries the move text
  \<open>N/A\<close>, the worker stays alive and keeps its engine, and the best-move label shows
  \<open>N/A\<close>.
\<close>

theorem empty_line_gives_sentinel:
  "engine s = Some h \<Longrightarrow> analyse l (calls s) h (heap s b) t = Returned i \<Longrightarrow>
   info_pv i = None \<or> info_pv i = Some [] \<Longrightarrow>
     result_queue (handle_request l (Analyze b t) s) =
       result_queue s @ [AnalysisResult \<lparr>r_move = Some ''N/A'', r_score = info_score i,
                                        r_turn = Some (turn (heap s b))\<rparr>]
   \<and> thread_alive (handle_request l (Analyze b t) s) = thread_alive s
   \<and> stuck (handle_request l (Analyze b t) s) = stuck s
   \<and> engine (handle_request l (Analyze b t) s) = Some h
   \<and> best_move_label (show_event (AnalysisResult \<lparr>r_move = Some ''N/A'', r_score = info_score i,
                                        r_turn = Some (turn (heap s b))\<rparr>) g) = ''N/A''"
  by (auto simp add: handle_analyze_def first_move_def update_gui_with_analysis_def Let_def
        split: option.splits)

theorem empty_line_gives_sentinel_witness:
  "engine (connected_app mating_lib) = Some 1
   \<and> analyse mating_lib (calls (connected_app mating_lib)) 1 (heap (connected_app mating_lib) 0) 2
       = Returned \<lparr>info_pv = Some [], info_score = Some \<lparr>relative = Mate 3, pov_turn = True\<rparr>\<rparr>
   \<and> result_queue (handle_request mating_lib (Analyze 0 2) (connected_app mating_lib)) =
       [ConnectSuccess,
        AnalysisResult \<lparr>r_move = Some ''N/A'',
          r_score = Some \<lparr>relative = Mate 3, pov_turn = True\<rparr>, r_turn = Some True\<rparr>]"
proof -
  have e: "engine (connected_app mating_lib) = Some 1"
    and r: "result_queue (connected_app mating_lib) = [ConnectSuccess]"
    and h: "heap (connected_app mating_lib) 0 = starting_board"
    by (simp_all add: connected_app_def ui_defs worker_defs mating_lib_def)
  have a: "analyse mating_lib (calls (connected_app mating_lib)) 1 (heap (connected_app mating_lib) 0) 2
       = Returned \<lparr>info_pv = Some [], info_score = Some \<lparr>relative = Mate 3, pov_turn = True\<rparr>\<rparr>"
    by (simp add: h) (simp add: mating_lib_def starting_board_def)
  from empty_line_gives_sentinel [OF e a] e a r h show ?thesis
    by (simp add: starting_board_def)
qed

subsection \<open>The time budget of an analysis\<close>

text \<open>
  Claim C10. The request \<open>_start_analysis\<close> queues always carries the time limit 2.0;
  the function takes nothing from which another limit could come. The worker itself
  passes on whatever limit a request carries.
\<close>

theorem analysis_time_budget:
  "request_queue (start_analysis s) = request_queue s @ [Analyze (next_addr s) 2]
   \<and> (engine s = Some h \<longrightarrow>
        calls (handle_request l (Analyze b t) s) =
          calls s @ [CallAnalyse h (heap s b) t (analyse l (calls s) h (heap s b) t)])"
  by (simp add: start_analysis_def handle_analyze_def Let_def split: outcome.splits)

theorem analysis_time_budget_witness:
  "request_queue (start_analysis (connected_app stub_lib)) = [Analyze 1 2]
   \<and> engine (connected_app stub_lib) = Some 1
   \<and> calls (handle_request stub_lib (Analyze 0 (7 / 2)) (connected_app stub_lib)) =
       [CallPopen ''/usr/bin/stockfish'' (Returned 1), CallPing 1 (Returned ()),
        CallAnalyse 1 starting_board (7 / 2)
          (Returned \<lparr>info_pv = Some [''e2e4''],
                     info_score = Some \<lparr>relative = Cp 35, pov_turn = True\<rparr>\<rparr>)]"
proof -
  have e: "engine (connected_app stub_lib) = Some 1"
    and c: "calls (connected_app stub_lib) =
              [CallPopen ''/usr/bin/stockfish'' (Returned 1), CallPing 1 (Returned ())]"
    and q: "request_queue (connected_app stub_lib) = []"
    and n: "next_addr (connected_app stub_lib) = 1"
    and h: "heap (connected_app stub_lib) 0 = starting_board"
    by (simp_all add: connected_app_def ui_defs worker_defs stub_lib_def)
  from analysis_time_budget [of "connected_app stub_lib" 1 stub_lib 0 "7 / 2"] e c q n h
  show ?thesis
    by (simp add: stub_lib_def starting_board_def)
qed

subsection \<open>The score is shown for the side that was to move in the analysed board\<close>

lemma evaluation_of_cases:
  "evaluation_of (Cp c) =
     (if c > 50 then (Pawns c, Success) else if c < - 50 then (Pawns c, ErrorTint)
      else (Pawns c, TextTint))"
  "evaluation_of (Mate n) = (if n > 0 then (MateIn n, Success) else (MatedIn (- n), ErrorTint))"
  "evaluation_of MateGiven = (MatedIn 0, ErrorTint)"
  by (simp_all add: evaluation_of_def is_mate_def)

text \<open>
  Claim C5. A completed analysis puts a result holding the engine's score and the side
  to move of the analysed board. What the evaluation label then shows is fixed by the
  score seen from that side, whatever state, and so whatever live board, the user
  interface has by then: a mate in \<open>n\<close> for that side is shown as "Mate in n", a mate
  in \<open>n\<close> against it as "Mated in n", and otherwise the centipawns from that side's
  view are shown. When the engine's score is relative to the side to move of the
  analysed board, as the library builds it, the score seen from that side is the
  engine's score itself.
\<close>

theorem score_from_analyzed_side:
  "engine s = Some h \<Longrightarrow> analyse l (calls s) h (heap s b) t = Returned i \<Longrightarrow>
   info_score i = Some ps \<Longrightarrow>
   \<exists>res. result_queue (handle_request l (Analyze b t) s) = result_queue s @ [AnalysisResult res]
     \<and> (\<forall>g. evaluation_label (update_gui_with_analysis res g)
              = evaluation_of (pov ps (turn (heap s b))))
     \<and> (\<forall>g n. pov ps (turn (heap s b)) = Mate n \<and> n > 0 \<longrightarrow>
           evaluation_label (update_gui_with_analysis res g) = (MateIn n, Success))
     \<and> (\<forall>g n. pov ps (turn (heap s b)) = Mate n \<and> n < 0 \<longrightarrow>
           evaluation_label (update_gui_with_analysis res g) = (MatedIn (- n), ErrorTint))
     \<and> (\<forall>g c. pov ps (turn (heap s b)) = Cp c \<longrightarrow>
           fst (evaluation_label (update_gui_with_analysis res g)) = Pawns c)
     \<and> (pov_turn ps = turn (heap s b) \<longrightarrow> pov ps (turn (heap s b)) = relative ps)"
proof -
  assume e: "engine s = Some h" and a: "analyse l (calls s) h (heap s b) t = Returned i"
    and sc: "info_score i = Some ps"
  let ?res = "\<lparr>r_move = Some (first_move i), r_score = info_score i,
               r_turn = Some (turn (heap s b))\<rparr>"
  from e a have q: "result_queue (handle_request l (Analyze b t) s)
                     = result_queue s @ [AnalysisResult ?res]"
    by (simp add: handle_analyze_def Let_def)
  have lab: "evaluation_label (update_gui_with_analysis ?res g)
               = evaluation_of (pov ps (turn (heap s b)))" for g
    using sc by (simp add: update_gui_with_analysis_def Let_def)
  show ?thesis
  proof (intro exI [of _ ?res] conjI allI impI)
    show "result_queue (handle_request l (Analyze b t) s) = result_queue s @ [AnalysisResult ?res]"
      by (rule q)
  qed (simp_all add: lab evaluation_of_cases pov_def)
qed

theorem score_from_analyzed_side_witness:
  "engine (connected_app mating_lib) = Some 1
   \<and> result_queue (run mating_lib bare_os
        [PressAnalyze, ChangeBoard (\<lambda>b. b\<lparr>turn := False\<rparr>), WorkerTurn]
        (connected_app mating_lib)) =
       [ConnectSuccess,
        AnalysisResult \<lparr>r_move = Some ''N/A'',
          r_score = Some \<lparr>relative = Mate 3, pov_turn = True\<rparr>, r_turn = Some True\<rparr>]
   \<and> turn (heap (run mating_lib bare_os
        [PressAnalyze, ChangeBoard (\<lambda>b. b\<lparr>turn := False\<rparr>), WorkerTurn, Poll, Poll]
        (connected_app mating_lib)) 0) = False
   \<and> evaluation_label (run mating_lib bare_os
        [PressAnalyze, ChangeBoard (\<lambda>b. b\<lparr>turn := False\<rparr>), WorkerTurn, Poll, Poll]
        (connected_app mating_lib)) = (MateIn 3, Success)"
proof -
  let ?s = "run mating_lib bare_os [PressAnalyze, ChangeBoard (\<lambda>b. b\<lparr>turn := False\<rparr>)]
              (connected_app mating_lib)"
  let ?i = "\<lparr>info_pv = Some [], info_score = Some \<lparr>relative = Mate 3, pov_turn = True\<rparr>\<rparr>"
  have e0: "engine (connected_app mating_lib) = Some 1"
    by (simp add: connected_app_def ui_defs worker_defs mating_lib_def)
  have e: "engine ?s = Some 1" and al: "thread_alive ?s" and ns: "\<not> stuck ?s"
    and q: "request_queue ?s = [Analyze 1 2]"
    and r: "result_queue ?s = [ConnectSuccess]"
    and h1: "heap ?s 1 = starting_board"
    and h0: "turn (heap ?s 0) = False"
    and b: "board ?s = 0"
    by (simp_all add: connected_app_def ui_defs worker_defs mating_lib_def)
  have a: "analyse mating_lib (calls ?s) 1 (heap ?s 1) 2 = Returned ?i"
    by (simp only: h1) (simp add: mating_lib_def starting_board_def)
  from score_from_analyzed_side [OF e a, of "\<lparr>relative = Mate 3, pov_turn = True\<rparr>"]
  obtain res where
    res: "result_queue (handle_request mating_lib (Analyze 1 2) ?s) = result_queue ?s @ [AnalysisResult res]"
    and lab: "\<And>g. evaluation_label (update_gui_with_analysis res g)
                = evaluation_of (pov \<lparr>relative = Mate 3, pov_turn = True\<rparr> (turn (heap ?s 1)))"
    by auto
  have w: "handler_turn mating_lib ?s = handle_request mating_lib (Analyze 1 2) (?s\<lparr>request_queue := []\<rparr>)"
    using al ns q by (simp add: handler_turn_def)
  have rq: "result_queue (handler_turn mating_lib ?s) = [ConnectSuccess, AnalysisResult res]"
    using res r by (simp add: w handle_request_queue_update)
  have rq': "result_queue (handler_turn mating_lib ?s) =
       [ConnectSuccess,
        AnalysisResult \<lparr>r_move = Some ''N/A'',
          r_score = Some \<lparr>relative = Mate 3, pov_turn = True\<rparr>, r_turn = Some True\<rparr>]"
    using e a h1 r by (simp add: w handle_analyze_def first_move_def starting_board_def)
  have fin: "evaluation_label (run mating_lib bare_os
        [PressAnalyze, ChangeBoard (\<lambda>b. b\<lparr>turn := False\<rparr>), WorkerTurn, Poll, Poll]
        (connected_app mating_lib))
      = evaluation_label (update_gui_with_analysis res
          (check_result_queue (handler_turn mating_lib ?s)\<lparr>result_queue := []\<rparr>))"
    using rq by (simp add: run_def check_result_queue_def)
  have hp: "heap (run mating_lib bare_os
        [PressAnalyze, ChangeBoard (\<lambda>b. b\<lparr>turn := False\<rparr>), WorkerTurn, Poll, Poll]
        (connected_app mating_lib)) 0 = heap ?s 0"
    by (simp add: run_def)
  have "evaluation_of (pov \<lparr>relative = Mate 3, pov_turn = True\<rparr> (turn (heap ?s 1))) = (MateIn 3, Success)"
    by (simp only: h1) (simp add: starting_board_def pov_def evaluation_of_cases)
  with fin lab hp h0 e0 rq' show ?thesis
    by (simp add: run_def)
qed

subsection \<open>A failed analysis\<close>

text \<open>
  Claim C6, as stated, fails. After an analysis that raised because the engine process
  had died, the engine reference still holds the engine. The log of library calls ends
  with the failed \<open>analyse\<close>: nothing is asked of the process afterwards, so its
  liveness is not checked and the session does not become disconnected.
\<close>

theorem analysis_failure_leaves_engine_set:
  "engine (run crash_lib bare_os [PressAnalyze, WorkerTurn] (connected_app crash_lib)) = Some 1
   \<and> thread_alive (run crash_lib bare_os [PressAnalyze, WorkerTurn] (connected_app crash_lib))
   \<and> result_queue (run crash_lib bare_os [PressAnalyze, WorkerTurn] (connected_app crash_lib)) =
       [ConnectSuccess, Error ''Analysis failed: engine process died unexpectedly'']
   \<and> calls (run crash_lib bare_os [PressAnalyze, WorkerTurn] (connected_app crash_lib)) =
       [CallPopen ''/usr/bin/stockfish'' (Returned 1), CallPing 1 (Returned ()),
        CallAnalyse 1 starting_board 2 (Raised ''engine process died unexpectedly'')]"
  by (simp add: connected_app_def ui_defs worker_defs crash_lib_def)

text \<open>
  Claim C6, amended. When \<open>analyse\<close> raises, the worker puts the one result
  \<open>("error", "Analysis failed: " + cause)\<close> on the result queue, stays alive, goes on
  with the rest of the queue, and leaves the engine reference as it was; no other call
  is made on the library.
\<close>

theorem analysis_failure_reported:
  "engine s = Some h \<Longrightarrow> thread_alive s \<Longrightarrow> \<not> stuck s \<Longrightarrow>
   request_queue s = Analyze b t # rest \<Longrightarrow>
   analyse l (calls s) h (heap s b) t = Raised e \<Longrightarrow>
     handler_turn l s =
       s\<lparr>request_queue := rest,
         calls := calls s @ [CallAnalyse h (heap s b) t (Raised e)],
         result_queue := result_queue s @ [Error (''Analysis failed: '' @ e)]\<rparr>
   \<and> thread_alive (handler_turn l s)
   \<and> \<not> stuck (handler_turn l s)
   \<and> engine (handler_turn l s) = Some h
   \<and> async_engine_handler l s = async_engine_handler l (handler_turn l s)"
  by (simp add: handler_turn_def handle_analyze_def handler_unfold)

theorem analysis_failure_reported_witness:
  "engine (start_analysis (connected_app crash_lib)) = Some 1
   \<and> thread_alive (start_analysis (connected_app crash_lib))
   \<and> stuck (start_analysis (connected_app crash_lib)) = False
   \<and> request_queue (start_analysis (connected_app crash_lib)) = [Analyze 1 2]
   \<and> analyse crash_lib (calls (start_analysis (connected_app crash_lib))) 1
        (heap (start_analysis (connected_app crash_lib)) 1) 2
       = Raised ''engine process died unexpectedly''
   \<and> result_queue (handler_turn crash_lib (start_analysis (connected_app crash_lib))) =
       [ConnectSuccess, Error ''Analysis failed: engine process died unexpectedly'']
   \<and> engine (handler_turn crash_lib (start_analysis (connected_app crash_lib))) = Some 1"
proof -
  let ?s = "start_analysis (connected_app crash_lib)"
  have e: "engine ?s = Some 1" and al: "thread_alive ?s" and ns: "\<not> stuck ?s"
    and q: "request_queue ?s = [Analyze 1 2]"
    and r: "result_queue ?s = [ConnectSuccess]"
    by (simp_all add: connected_app_def ui_defs worker_defs crash_lib_def)
  have a: "analyse crash_lib (calls ?s) 1 (heap ?s 1) 2 = Raised ''engine process died unexpectedly''"
    by (simp add: crash_lib_def)
  from analysis_failure_reported [OF e al ns q a] e al ns q a r show ?thesis
    by simp
qed

subsection \<open>Failed connection attempts\<close>




subsection \<open>The analysed board is a copy\<close>

text \<open>
  No step of either thread writes to an allocated board object other than the live
  board, and the live board is allocated in every state reachable from the initial
  one.
\<close>

lemma snapshot_step:
  "a < next_addr s \<Longrightarrow> a \<noteq> board s \<Longrightarrow>
     heap (perform l env act s) a = heap s a
   \<and> a < next_addr (perform l env act s)
   \<and> board (perform l env act s) = board s"
  by (cases act)
     (simp_all add: board_update_def start_analysis_def connect_to_stockfish_def
        Let_def split: option.splits)

lemma snapshot_run:
  "a < next_addr s \<Longrightarrow> a \<noteq> board s \<Longrightarrow> heap (run l env acts s) a = heap s a"
proof (induction acts arbitrary: s)
  case Nil
  then show ?case by (simp add: run_def)
next
  case (Cons act acts)
  note step = snapshot_step [OF Cons.prems, of l env act]
  from step Cons.prems
  have "heap (run l env acts (perform l env act s)) a = heap (perform l env act s) a"
    by (intro Cons.IH) simp_all
  with step show ?case
    by (simp add: run_def)
qed

lemma board_allocated_step:
  "board s < next_addr s \<Longrightarrow> board (perform l env act s) < next_addr (perform l env act s)"
  by (cases act)
     (simp_all add: board_update_def start_analysis_def connect_to_stockfish_def
        Let_def split: option.splits)

lemma board_allocated:
  "board (run l env acts (init_app env')) < next_addr (run l env acts (init_app env'))"
proof -
  have "board s < next_addr s \<Longrightarrow> board (run l env acts s) < next_addr (run l env acts s)" for s
    by (induction acts arbitrary: s) (simp_all add: run_def board_allocated_step)
  then show ?thesis
    by (simp add: init_app_def Let_def)
qed

text \<open>
  Claim C7. The board an analyze request carries is a new object, different from the
  live board, holding the live board's value at the time of the request. Whatever the
  user interface and the worker do afterwards, in any order, including changes of the
  live board in place, that object keeps this value, and it is the value the worker
  hands to \<open>analyse\<close> when it handles the request.
\<close>

theorem snapshot_not_aliased:
  "board s < next_addr s \<Longrightarrow>
     request_queue (start_analysis s) = request_queue s @ [Analyze (next_addr s) 2]
   \<and> next_addr s \<noteq> board (start_analysis s)
   \<and> heap (start_analysis s) (next_addr s) = heap s (board s)
   \<and> heap (run l env acts (start_analysis s)) (next_addr s) = heap s (board s)
   \<and> (engine (run l env acts (start_analysis s)) = Some h \<longrightarrow>
        calls (handle_request l (Analyze (next_addr s) 2) (run l env acts (start_analysis s))) =
          calls (run l env acts (start_analysis s))
            @ [CallAnalyse h (heap s (board s)) 2
                 (analyse l (calls (run l env acts (start_analysis s))) h (heap s (board s)) 2)])"
proof -
  assume b: "board s < next_addr s"
  have h: "heap (run l env acts (start_analysis s)) (next_addr s) = heap s (board s)"
    using b snapshot_run [of "next_addr s" "start_analysis s" l env acts]
    by (simp add: start_analysis_def)
  have c: "engine t = Some h \<Longrightarrow> heap t a = v \<Longrightarrow>
           calls (handle_request l (Analyze a 2) t) =
             calls t @ [CallAnalyse h v 2 (analyse l (calls t) h v 2)]" for t a v
    by (simp add: handle_analyze_def Let_def split: outcome.splits)
  have q: "request_queue (start_analysis s) = request_queue s @ [Analyze (next_addr s) 2]"
    and n: "next_addr s \<noteq> board (start_analysis s)"
    and h0: "heap (start_analysis s) (next_addr s) = heap s (board s)"
    using b by (simp_all add: start_analysis_def)
  from q n h0 h c [OF _ h] show ?thesis
    by blast
qed

theorem snapshot_not_aliased_witness:
  "board (connected_app stub_lib) < next_addr (connected_app stub_lib)
   \<and> request_queue (start_analysis (connected_app stub_lib)) = [Analyze 1 2]
   \<and> heap (run stub_lib bare_os [ChangeBoard (\<lambda>b. b\<lparr>turn := False\<rparr>), Poll]
            (start_analysis (connected_app stub_lib))) 0 = starting_board\<lparr>turn := False\<rparr>
   \<and> heap (run stub_lib bare_os [ChangeBoard (\<lambda>b. b\<lparr>turn := False\<rparr>), Poll]
            (start_analysis (connected_app stub_lib))) 1 = starting_board
   \<and> engine (run stub_lib bare_os [ChangeBoard (\<lambda>b. b\<lparr>turn := False\<rparr>), Poll]
            (start_analysis (connected_app stub_lib))) = Some 1
   \<and> calls (handle_request stub_lib (Analyze 1 2)
            (run stub_lib bare_os [ChangeBoard (\<lambda>b. b\<lparr>turn := False\<rparr>), Poll]
              (start_analysis (connected_app stub_lib)))) =
       [CallPopen ''/usr/bin/stockfish'' (Returned 1), CallPing 1 (Returned ()),
        CallAnalyse 1 starting_board 2
          (Returned \<lparr>info_pv = Some [''e2e4''],
                     info_score = Some \<lparr>relative = Cp 35, pov_turn = True\<rparr>\<rparr>)]"
proof -
  let ?s = "connected_app stub_lib"
  let ?t = "run stub_lib bare_os [ChangeBoard (\<lambda>b. b\<lparr>turn := False\<rparr>), Poll] (start_analysis ?s)"
  have b: "board ?s < next_addr ?s" and b0: "board ?s = 0" and n: "next_addr ?s = 1"
    and h: "heap ?s 0 = starting_board"
    and q: "request_queue ?s = []"
    by (simp_all add: connected_app_def ui_defs worker_defs stub_lib_def)
  have e: "engine ?t = Some 1"
    and c: "calls ?t = [CallPopen ''/usr/bin/stockfish'' (Returned 1), CallPing 1 (Returned ())]"
    by (simp_all add: connected_app_def ui_defs worker_defs stub_lib_def)
  have h0: "heap ?t 0 = starting_board\<lparr>turn := False\<rparr>"
    using b0 h by (simp add: run_def board_update_def start_analysis_def)
  from snapshot_not_aliased [OF b, of stub_lib bare_os
         "[ChangeBoard (\<lambda>b. b\<lparr>turn := False\<rparr>), Poll]" 1] b b0 n h q e c h0
  show ?thesis
    by (simp add: stub_lib_def starting_board_def)
qed

subsection \<open>Shutting down\<close>

text \<open>
  While a quit request waits in the queue, or the worker has ended or awaits a call
  that never completes, further turns of the loop keep it so.
\<close>

lemma quit_waiting_turn:
  "Quit \<in> set (request_queue s) \<or> \<not> thread_alive s \<or> stuck s \<Longrightarrow>
   Quit \<in> set (request_queue (handler_turn l s))
     \<or> \<not> thread_alive (handler_turn l s) \<or> stuck (handler_turn l s)"
proof (cases "\<not> thread_alive s \<or> stuck s")
  case True
  then show ?thesis by (auto simp add: handler_turn_def)
next
  case False
  assume "Quit \<in> set (request_queue s) \<or> \<not> thread_alive s \<or> stuck s"
  with False obtain r rest where q: "request_queue s = r # rest" and m: "Quit \<in> set (r # rest)"
    by (cases "request_queue s") auto
  from False q have turn: "handler_turn l s = handle_request l r (s\<lparr>request_queue := rest\<rparr>)"
    by (simp add: handler_turn_def)
  show ?thesis
  proof (cases "r = Quit")
    case True
    with turn handle_quit_effect [of l "s\<lparr>request_queue := rest\<rparr>"] show ?thesis
      by auto
  next
    case False
    with m turn show ?thesis by simp
  qed
qed

lemma quit_waiting_turns:
  "Quit \<in> set (request_queue s) \<or> \<not> thread_alive s \<or> stuck s \<Longrightarrow>
   Quit \<in> set (request_queue (worker_turns l n s))
     \<or> \<not> thread_alive (worker_turns l n s) \<or> stuck (worker_turns l n s)"
proof (induction n arbitrary: s)
  case 0
  then show ?case by simp
next
  case (Suc n)
  from quit_waiting_turn [OF Suc.prems, of l] have
    "Quit \<in> set (request_queue (worker_turns l n (handler_turn l s)))
       \<or> \<not> thread_alive (worker_turns l n (handler_turn l s))
       \<or> stuck (worker_turns l n (handler_turn l s))"
    by (rule Suc.IH)
  then show ?case by simp
qed

lemma quit_waiting_ends:
  "Quit \<in> set (request_queue s) \<or> \<not> thread_alive s \<or> stuck s \<Longrightarrow>
   \<not> thread_alive (async_engine_handler l s) \<or> stuck (async_engine_handler l s)"
  using quit_ends_worker [of s l] handler_idle [of s l] by auto

text \<open>
  Claim C8, as stated, fails. Closing is not idempotent: the first call of
  \<open>_on_closing\<close> returns, with the worker ended and the window destroyed; the second
  call raises \<open>TclError\<close> from \<open>self.master.destroy()\<close>, also when no engine was ever
  connected.
\<close>

theorem second_shutdown_raises:
  "fst (on_closing stub_lib 2 (init_app bare_os)) = None
   \<and> thread_alive (snd (on_closing stub_lib 2 (init_app bare_os))) = False
   \<and> fst (on_closing stub_lib 2 (snd (on_closing stub_lib 2 (init_app bare_os)))) = Some TclError"
  by (simp add: on_closing_def init_app_def bare_os_def numeral_2_eq_2 handler_turn_def
        handle_quit_def Let_def)

text \<open>
  Claim C8, amended. A call of \<open>_on_closing\<close> while the window exists returns without
  an exception and destroys the window, whether or not an engine is connected and
  however many turns the worker completes during the bounded join; a call after the
  window has been destroyed raises \<open>TclError\<close>. Either way the quit request is queued,
  so that the worker, run on, ends or is left awaiting a call that never completes.
  Handling the quit request, the worker makes no library call when no engine is set;
  with an engine it calls \<open>quit\<close> and ends whether \<open>quit\<close> returned or raised, reporting
  nothing; when \<open>quit\<close> never completes it waits for ever. A worker that has ended or
  waits for ever takes no further request.
\<close>

theorem shutdown_effects:
  "(\<not> window_destroyed s \<longrightarrow>
      fst (on_closing l n s) = None \<and> window_destroyed (snd (on_closing l n s)))
   \<and> (window_destroyed s \<longrightarrow> fst (on_closing l n s) = Some TclError)
   \<and> (\<not> thread_alive (async_engine_handler l (snd (on_closing l n s)))
        \<or> stuck (async_engine_handler l (snd (on_closing l n s))))
   \<and> (engine s = None \<longrightarrow> handle_request l Quit s = s\<lparr>thread_alive := False\<rparr>)
   \<and> (engine s = Some h \<and> quit l (calls s) h \<noteq> Pending \<longrightarrow>
        handle_request l Quit s =
          s\<lparr>calls := calls s @ [CallQuit h (quit l (calls s) h)], thread_alive := False\<rparr>)
   \<and> (engine s = Some h \<and> quit l (calls s) h = Pending \<longrightarrow>
        handle_request l Quit s =
          s\<lparr>calls := calls s @ [CallQuit h Pending], stuck := True\<rparr>)
   \<and> (\<not> thread_alive s \<or> stuck s \<longrightarrow>
        handler_turn l s = s \<and> worker_turns l m s = s \<and> async_engine_handler l s = s)"
proof -
  let ?p = "s\<lparr>request_queue := request_queue s @ [Quit]\<rparr>"
  let ?j = "if thread_alive ?p then worker_turns l n ?p else ?p"
  have w: "window_destroyed ?j = window_destroyed s"
    by simp
  have 1: "\<not> window_destroyed s \<longrightarrow>
      fst (on_closing l n s) = None \<and> window_destroyed (snd (on_closing l n s))"
    and 2: "window_destroyed s \<longrightarrow> fst (on_closing l n s) = Some TclError"
    using w by (simp_all add: on_closing_def Let_def)
  have inv: "Quit \<in> set (request_queue ?j) \<or> \<not> thread_alive ?j \<or> stuck ?j"
    using quit_waiting_turns [of ?p l n] by simp
  have wd: "Quit \<in> set (request_queue (t\<lparr>window_destroyed := True\<rparr>))
              \<or> \<not> thread_alive (t\<lparr>window_destroyed := True\<rparr>)
              \<or> stuck (t\<lparr>window_destroyed := True\<rparr>)"
    if "Quit \<in> set (request_queue t) \<or> \<not> thread_alive t \<or> stuck t" for t
    using that by simp
  have "Quit \<in> set (request_queue (snd (on_closing l n s)))
          \<or> \<not> thread_alive (snd (on_closing l n s)) \<or> stuck (snd (on_closing l n s))"
    using inv wd [OF inv] by (simp add: on_closing_def Let_def split: if_splits)
  then have 3: "\<not> thread_alive (async_engine_handler l (snd (on_closing l n s)))
        \<or> stuck (async_engine_handler l (snd (on_closing l n s)))"
    by (rule quit_waiting_ends)
  have 4: "engine s = None \<longrightarrow> handle_request l Quit s = s\<lparr>thread_alive := False\<rparr>"
    and 5: "engine s = Some h \<and> quit l (calls s) h \<noteq> Pending \<longrightarrow>
        handle_request l Quit s =
          s\<lparr>calls := calls s @ [CallQuit h (quit l (calls s) h)], thread_alive := False\<rparr>"
    and 6: "engine s = Some h \<and> quit l (calls s) h = Pending \<longrightarrow>
        handle_request l Quit s =
          s\<lparr>calls := calls s @ [CallQuit h Pending], stuck := True\<rparr>"
    by (simp_all add: handle_quit_def Let_def split: outcome.splits)
  have 7: "\<not> thread_alive s \<or> stuck s \<longrightarrow>
        handler_turn l s = s \<and> worker_turns l m s = s \<and> async_engine_handler l s = s"
    using stuck_stays [of s l m] ended_stays [of s l m] by blast
  from 1 2 3 4 5 6 7 show ?thesis
    by (intro conjI)
qed

theorem shutdown_effects_witness:
  "window_destroyed (init_app bare_os) = False
   \<and> fst (on_closing crash_lib 2 (init_app bare_os)) = None
   \<and> window_destroyed (snd (on_closing crash_lib 2 (init_app bare_os))) = True
   \<and> fst (on_closing crash_lib 2 (snd (on_closing crash_lib 2 (init_app bare_os)))) = Some TclError
   \<and> engine (init_app bare_os) = None
   \<and> handle_request crash_lib Quit (init_app bare_os) = (init_app bare_os)\<lparr>thread_alive := False\<rparr>
   \<and> engine (connected_app crash_lib) = Some 1
   \<and> quit crash_lib (calls (connected_app crash_lib)) 1 = Raised ''engine process died unexpectedly''
   \<and> calls (handle_request crash_lib Quit (connected_app crash_lib)) =
       [CallPopen ''/usr/bin/stockfish'' (Returned 1), CallPing 1 (Returned ()),
        CallQuit 1 (Raised ''engine process died unexpectedly'')]
   \<and> result_queue (handle_request crash_lib Quit (connected_app crash_lib)) = [ConnectSuccess]
   \<and> thread_alive (handle_request crash_lib Quit (connected_app crash_lib)) = False
   \<and> quit hung_lib (calls (connected_app crash_lib)) 1 = Pending
   \<and> stuck (handle_request hung_lib Quit (connected_app crash_lib)) = True
   \<and> thread_alive (handle_request hung_lib Quit (connected_app crash_lib)) = True
   \<and> worker_turns hung_lib 3 (handle_request hung_lib Quit (connected_app crash_lib))
       = handle_request hung_lib Quit (connected_app crash_lib)"
proof -
  let ?i = "init_app bare_os"
  let ?s = "connected_app crash_lib"
  let ?d = "snd (on_closing crash_lib 2 ?i)"
  have w0: "\<not> window_destroyed ?i" and e0: "engine ?i = None"
    by (simp_all add: init_app_def Let_def)
  have e: "engine ?s = Some 1"
    and c: "calls ?s = [CallPopen ''/usr/bin/stockfish'' (Returned 1), CallPing 1 (Returned ())]"
    and r: "result_queue ?s = [ConnectSuccess]"
    and al: "thread_alive ?s"
    by (simp_all add: connected_app_def ui_defs worker_defs crash_lib_def)
  have q1: "quit crash_lib (calls ?s) 1 = Raised ''engine process died unexpectedly''"
    by (simp add: crash_lib_def)
  have q2: "quit hung_lib (calls ?s) 1 = Pending"
    by (simp add: hung_lib_def)
  have qg: "quit crash_lib cs h = Raised ''engine process died unexpectedly''" for cs h
    by (simp add: crash_lib_def)
  from shutdown_effects [of ?i crash_lib 2] w0 e0
  have 1: "fst (on_closing crash_lib 2 ?i) = None" and 2: "window_destroyed ?d"
    and 4: "handle_request crash_lib Quit ?i = ?i\<lparr>thread_alive := False\<rparr>"
    by blast+
  from shutdown_effects [of ?d crash_lib 2] 2
  have 3: "fst (on_closing crash_lib 2 ?d) = Some TclError"
    by blast
  from shutdown_effects [of ?s crash_lib _ 1] e q1
  have 5: "handle_request crash_lib Quit ?s =
          ?s\<lparr>calls := calls ?s @ [CallQuit 1 (quit crash_lib (calls ?s) 1)], thread_alive := False\<rparr>"
    by simp
  from shutdown_effects [of ?s hung_lib _ 1] e q2
  have 6: "handle_request hung_lib Quit ?s =
          ?s\<lparr>calls := calls ?s @ [CallQuit 1 Pending], stuck := True\<rparr>"
    by simp
  have st: "stuck (handle_request hung_lib Quit ?s)"
    by (simp only: 6) simp
  from shutdown_effects [of "handle_request hung_lib Quit ?s" hung_lib _ _ 3] st
  have 7: "worker_turns hung_lib 3 (handle_request hung_lib Quit ?s) = handle_request hung_lib Quit ?s"
    by blast
  have qa: "calls (handle_request crash_lib Quit ?s) =
       [CallPopen ''/usr/bin/stockfish'' (Returned 1), CallPing 1 (Returned ()),
        CallQuit 1 (Raised ''engine process died unexpectedly'')]"
    and qb: "result_queue (handle_request crash_lib Quit ?s) = [ConnectSuccess]"
    and qc: "thread_alive (handle_request crash_lib Quit ?s) = False"
    by (simp_all only: 5) (simp_all add: c r qg)
  have ha: "thread_alive (handle_request hung_lib Quit ?s) = True"
    by (simp only: 6) (simp add: al)
  from w0 1 2 3 e0 4 e q1 qa qb qc q2 st ha 7 show ?thesis
    by (simp only: simp_thms)
qed

end
